theory Spec2Isabelle
  imports Main
begin

section \<open>JavaScript values, objects and the heap\<close>

text \<open>
  The component of \<^verbatim>\<open>components/slider/index.tsx\<close> is a function from a props object
  and an ambient configuration to a tree of React elements. TypeScript's types are erased
  when the code runs, so option values are modelled as the JavaScript values they are:
  every optional option may be \<open>Undefined\<close>, and truthiness, \<open>||\<close>, \<open>&&\<close> and
  \<open>typeof\<close> are written out.
  Objects live in a heap and are named by their address, so that a write to one object is
  visible through every reference to it and through no other.
\<close>

type_synonym addr = nat

datatype hostfn =
    DefaultTipFormatter \<comment> \<open>the function of \<open>Slider.defaultProps\<close>\<close>
  | Host nat \<comment> \<open>a function of the caller or of the configuration provider\<close>

text \<open>
  A number is NaN, one of the two infinities, or finite. The component never computes
  with a number: it asks for its type and its truthiness, and prints it. A finite
  number is therefore given by the decimal that printing chooses for it, the shortest one
  that reads back as the number: \<open>Finite neg s e\<close> is the number whose decimal is
  \<open>s\<close> times ten to the power \<open>e\<close>, negated when \<open>neg\<close> holds. An integer below
  \<open>2^53\<close> is its own decimal (\<open>Finite False 5 0\<close> is 5), \<open>Finite False 25 (- 1)\<close>
  is 2.5, and \<open>s = 0\<close> gives the two zeros. Every number of JavaScript is a value of this
  type.
\<close>

datatype number =
    NaN
  | Infinity
  | NegInfinity
  | Finite bool nat int

fun is_zero :: "number \<Rightarrow> bool" where
  "is_zero (Finite neg s e) = (s = 0)"
| "is_zero NaN = False"
| "is_zero Infinity = False"
| "is_zero NegInfinity = False"

definition number_of_nat :: "nat \<Rightarrow> number" where
  \<comment> \<open>an array index as a number\<close>
  "number_of_nat i = Finite False i 0"

datatype jsval =
    Undefined
  | Null
  | JBool bool
  | JNum number
  | JStr string
  | JRef addr
  | JFun hostfn

type_synonym obj = "string \<rightharpoonup> jsval"

type_synonym heap = "obj list"

datatype error = TypeError

fun truthy :: "jsval \<Rightarrow> bool" where
  "truthy Undefined = False"
| "truthy Null = False"
| "truthy (JBool b) = b"
| "truthy (JNum x) = (x \<noteq> NaN \<and> \<not> is_zero x)"
| "truthy (JStr s) = (s \<noteq> [])"
| "truthy (JRef a) = True"
| "truthy (JFun f) = True"

fun typeof :: "jsval \<Rightarrow> string" where
  "typeof Undefined = ''undefined''"
| "typeof Null = ''object''"
| "typeof (JBool b) = ''boolean''"
| "typeof (JNum n) = ''number''"
| "typeof (JStr s) = ''string''"
| "typeof (JRef a) = ''object''"
| "typeof (JFun f) = ''function''"

definition js_or :: "jsval \<Rightarrow> jsval \<Rightarrow> jsval" where
  \<comment> \<open>\<open>a || b\<close>\<close>
  "js_or a b = (if truthy a then a else b)"

definition js_and :: "jsval \<Rightarrow> jsval \<Rightarrow> jsval" where
  \<comment> \<open>\<open>a && b\<close>\<close>
  "js_and a b = (if truthy a then b else a)"

definition js_not :: "jsval \<Rightarrow> jsval" where
  \<comment> \<open>\<open>!a\<close>\<close>
  "js_not a = JBool (\<not> truthy a)"

definition get :: "obj \<Rightarrow> string \<Rightarrow> jsval" where
  \<comment> \<open>reading a property of an object: a missing key reads as \<open>undefined\<close>\<close>
  "get ob k = (case ob k of None \<Rightarrow> Undefined | Some v \<Rightarrow> v)"

definition fetch :: "heap \<Rightarrow> addr \<Rightarrow> obj" where
  \<comment> \<open>the object at an address; a reference always names an allocated object\<close>
  "fetch h a = (if a < length h then h ! a else Map.empty)"

definition alloc :: "heap \<Rightarrow> obj \<Rightarrow> addr \<times> heap" where
  \<comment> \<open>a new object gets the next free address\<close>
  "alloc h ob = (length h, h @ [ob])"

definition assign :: "heap \<Rightarrow> addr \<Rightarrow> string \<Rightarrow> jsval \<Rightarrow> heap" where
  \<comment> \<open>\<open>o.k = v\<close> through the reference \<open>o\<close>\<close>
  "assign h a k v = h[a := (fetch h a)(k \<mapsto> v)]"

definition member :: "heap \<Rightarrow> jsval \<Rightarrow> string \<Rightarrow> error + jsval" where
  \<comment> \<open>\<open>v.k\<close> on any value: a property of \<open>undefined\<close> or \<open>null\<close> cannot be read;
      booleans, numbers, strings and functions have none of the keys read here\<close>
  "member h v k =
     (case v of
        Undefined \<Rightarrow> Inl TypeError
      | Null \<Rightarrow> Inl TypeError
      | JRef a \<Rightarrow> Inr (get (fetch h a) k)
      | _ \<Rightarrow> Inr Undefined)"

section \<open>Decimal strings\<close>

definition digit :: "nat \<Rightarrow> char" where
  "digit d = ''0123456789'' ! d"

fun string_of_nat :: "nat \<Rightarrow> string" where
  "string_of_nat n =
     (if n < 10 then [digit n] else string_of_nat (n div 10) @ [digit (n mod 10)])"

declare string_of_nat.simps [simp del]

fun shortest :: "nat \<Rightarrow> int \<Rightarrow> nat \<times> int" where
  \<comment> \<open>the same decimal with as few digits as possible: trailing zeros of the digits go
      into the exponent\<close>
  "shortest s e = (if s \<noteq> 0 \<and> s mod 10 = 0 then shortest (s div 10) (e + 1) else (s, e))"

declare shortest.simps [simp del]

definition toString_positive :: "nat \<Rightarrow> int \<Rightarrow> string" where
  \<comment> \<open>\<open>Number::toString\<close> of ECMAScript, radix 10, on a finite number above zero. With
      \<open>k\<close> the number of digits of \<open>s\<close>, as small as possible, and \<open>n\<close> such that the
      number is \<open>s\<close> times ten to the power \<open>n - k\<close>: for \<open>n\<close> from -5 to 21, the
      digits followed by \<open>n - k\<close> zeros when \<open>n \<ge> k\<close>, the digits with a point after
      the first \<open>n\<close> when \<open>0 < n\<close>, and \<open>0.\<close>, \<open>- n\<close> zeros and the digits otherwise;
      for any other \<open>n\<close> the exponent form, whose exponent is \<open>n - 1\<close> with its sign\<close>
  "toString_positive s e =
     (let (s', e') = shortest s e;
          ds = string_of_nat s';
          k = int (length ds);
          n = e' + k
      in if - 5 \<le> n \<and> n \<le> 21 then
           (if n \<ge> k then ds @ replicate (nat (n - k)) (CHR ''0'')
            else if 0 < n then take (nat n) ds @ ''.'' @ drop (nat n) ds
            else ''0.'' @ replicate (nat (- n)) (CHR ''0'') @ ds)
         else
           (let ex = n - 1;
                exponent = (if 0 \<le> ex then ''+'' else ''-'') @ string_of_nat (nat \<bar>ex\<bar>)
            in if k = 1 then ds @ ''e'' @ exponent
               else take 1 ds @ ''.'' @ drop 1 ds @ ''e'' @ exponent))"

definition toString :: "number \<Rightarrow> string" where
  \<comment> \<open>\<open>Number.prototype.toString\<close> with no radix: NaN, then the zeros, then the sign,
      then infinity, then the digits\<close>
  "toString x =
     (case x of
        NaN \<Rightarrow> ''NaN''
      | Infinity \<Rightarrow> ''Infinity''
      | NegInfinity \<Rightarrow> ''-Infinity''
      | Finite neg s e \<Rightarrow>
          if s = 0 then ''0''
          else if neg then CHR ''-'' # toString_positive s e
          else toString_positive s e)"

definition own_props :: "heap \<Rightarrow> jsval \<Rightarrow> obj" where
  \<comment> \<open>the own enumerable properties that a spread \<open>{...v}\<close> copies: those of the object
      for a reference, the characters by position for a string, none otherwise\<close>
  "own_props h v =
     (case v of
        JRef a \<Rightarrow> fetch h a
      | JStr s \<Rightarrow> map_of (zip (map string_of_nat [0 ..< length s]) (map (\<lambda>c. JStr [c]) s))
      | _ \<Rightarrow> Map.empty)"

section \<open>The ambient configuration and the imported helpers\<close>

text \<open>
  \<open>getPrefixCls\<close>, \<open>direction\<close> and \<open>getPopupContainer\<close> are what
  \<^verbatim>\<open>React.useContext(ConfigContext)\<close> returns. \<open>classNames\<close> is the imported
  package of that name, applied to the caller's class name and to one conditional class.
  \<open>combine\<close> and \<open>host\<close> are explained where they are used. All of them are
  parameters of the model.
\<close>

record env =
  getPrefixCls :: "jsval \<Rightarrow> jsval \<Rightarrow> string"
  direction :: jsval
  getPopupContainer :: jsval
  classNames :: "jsval \<Rightarrow> string \<Rightarrow> bool \<Rightarrow> jsval"
  combine :: "string \<Rightarrow> string \<Rightarrow> string"
  host :: "nat \<Rightarrow> jsval \<Rightarrow> jsval"

section \<open>The component\<close>

subsection \<open>Component state\<close>

type_synonym Visibles = "nat \<rightharpoonup> bool"

definition toggleTooltipVisible :: "nat \<Rightarrow> bool \<Rightarrow> Visibles \<Rightarrow> Visibles" where
  \<comment> \<open>\<open>setVisibles((prev) => ({ ...prev, [index]: visible }))\<close>: the new state as a
      function of the previous one\<close>
  "toggleTooltipVisible index visible prev = prev(index \<mapsto> visible)"

definition visibles_at :: "Visibles \<Rightarrow> nat \<Rightarrow> jsval" where
  \<comment> \<open>\<open>visibles[index]\<close>\<close>
  "visibles_at visibles index = (case visibles index of None \<Rightarrow> Undefined | Some b \<Rightarrow> JBool b)"

subsection \<open>Tooltip placement\<close>

definition getTooltipPlacement :: "env \<Rightarrow> jsval \<Rightarrow> jsval \<Rightarrow> jsval" where
  "getTooltipPlacement env tooltipPlacement vertical =
     (if truthy tooltipPlacement then tooltipPlacement
      else if \<not> truthy vertical then JStr ''top''
      else if direction env = JStr ''rtl'' then JStr ''left'' else JStr ''right'')"

subsection \<open>The default value formatter\<close>

definition num_of :: "jsval \<Rightarrow> number" where
  \<comment> \<open>the number that a value of type number is\<close>
  "num_of v = (case v of JNum x \<Rightarrow> x | _ \<Rightarrow> NaN)"

definition defaultProps_tipFormatter :: "jsval \<Rightarrow> jsval" where
  \<comment> \<open>\<open>tipFormatter(value) { return typeof value === 'number' ? value.toString() : ''; }\<close>\<close>
  "defaultProps_tipFormatter v =
     (if typeof v = ''number'' then JStr (toString (num_of v)) else JStr [])"


definition call :: "env \<Rightarrow> jsval \<Rightarrow> jsval \<Rightarrow> error + jsval" where
  \<comment> \<open>\<open>f(arg)\<close>: the default formatter runs its body, a function of the caller returns
      what \<open>host\<close> says it returns, and calling anything else is a TypeError\<close>
  "call env f arg =
     (case f of
        JFun DefaultTipFormatter \<Rightarrow> Inr (defaultProps_tipFormatter arg)
      | JFun (Host n) \<Rightarrow> Inr (host env n arg)
      | _ \<Rightarrow> Inl TypeError)"

subsection \<open>The transition name\<close>

text \<open>
  Modelled from the spec: \<open>getTransitionName\<close> of \<^verbatim>\<open>components/_util/motion\<close> is
  imported by the component and is not among the sources. The spec says that the
  transition name "is derived from an ambient theming root name combined with a fixed
  animation identifier, unless the caller supplies an explicit override, which wins".
  How the two names are combined is not said, so the combination is the parameter
  \<open>combine\<close> of the environment; an override is supplied when the third argument is not
  \<open>undefined\<close>.
\<close>

definition getTransitionName :: "env \<Rightarrow> string \<Rightarrow> string \<Rightarrow> jsval \<Rightarrow> jsval" where
  \<comment> \<open>Modelled from the spec: the explicit override wins when one is supplied, and the
      root name combined with the animation identifier is the result otherwise\<close>
  "getTransitionName env rootPrefixCls motion transitionName =
     (if transitionName \<noteq> Undefined then transitionName
      else JStr (combine env rootPrefixCls motion))"

subsection \<open>The handle with its tooltip\<close>

datatype attr =
    Val jsval
  | ToggleTooltipVisible nat bool
      \<comment> \<open>the closure \<open>() => toggleTooltipVisible(index, visible)\<close>\<close>
  | HandleWithTooltip string string
      \<comment> \<open>the closure \<open>(info) => handleWithTooltip({ tooltipPrefixCls, prefixCls, info })\<close>\<close>

datatype component = RcSlider | RcRange | RcHandle | SliderTooltip

datatype element = Element component "string \<rightharpoonup> attr" "element list"

definition spread :: "obj \<Rightarrow> (string \<rightharpoonup> attr)" where
  \<comment> \<open>\<open>{...ob}\<close> among the attributes of an element\<close>
  "spread ob = (\<lambda>k. map_option Val (ob k))"

text \<open>
  The handle descriptor that the primitive passes to the renderer, as the parameter
  pattern \<^verbatim>\<open>info: { value, dragging, index, ...restProps }\<close> takes it apart:
  \<open>info_rest\<close> holds the properties other than \<open>value\<close>, \<open>dragging\<close> and
  \<open>index\<close>.
\<close>

record handle_info =
  info_value :: jsval
  info_dragging :: jsval
  info_index :: nat
  info_rest :: obj

definition isTipFormatter :: "jsval \<Rightarrow> jsval \<Rightarrow> jsval \<Rightarrow> jsval" where
  \<comment> \<open>\<open>tipFormatter ? visibles[index] || dragging : false\<close>\<close>
  "isTipFormatter tipFormatter hovered dragging =
     (if truthy tipFormatter then js_or hovered dragging else JBool False)"

definition visible :: "jsval \<Rightarrow> jsval \<Rightarrow> jsval" where
  \<comment> \<open>\<open>tooltipVisible || (tooltipVisible === undefined && isTipFormatter)\<close>\<close>
  "visible tooltipVisible isTip =
     js_or tooltipVisible (js_and (JBool (tooltipVisible = Undefined)) isTip)"

definition handleWithTooltip ::
  "env \<Rightarrow> Visibles \<Rightarrow> heap \<Rightarrow> addr \<Rightarrow> string \<Rightarrow> string \<Rightarrow> handle_info
     \<Rightarrow> error + heap \<times> element" where
  "handleWithTooltip env visibles h props tooltipPrefixCls prefixCls info =
     (let val = info_value info;
          dragging = info_dragging info;
          index = info_index info;
          restProps = info_rest info;
          tipFormatter = get (fetch h props) ''tipFormatter'';
          tooltipVisible = get (fetch h props) ''tooltipVisible'';
          tooltipPlacement = get (fetch h props) ''tooltipPlacement'';
          getTooltipPopupContainer = get (fetch h props) ''getTooltipPopupContainer'';
          (tooltipProps, h') =
             (if get (fetch h props) ''tooltipProps'' = Undefined
              then (let (a, h') = alloc h Map.empty in (JRef a, h'))
              else (get (fetch h props) ''tooltipProps'', h));
          vertical = get (fetch h props) ''vertical'';
          rootPrefixCls = getPrefixCls env Undefined Undefined
      in case member h' tooltipProps ''transitionName'' of
           Inl e \<Rightarrow> Inl e
         | Inr tn \<Rightarrow>
             (case (if truthy tipFormatter then call env tipFormatter val else Inr (JStr [])) of
                Inl e \<Rightarrow> Inl e
              | Inr title \<Rightarrow>
                  Inr (h', Element SliderTooltip
                    (([''prefixCls'' \<mapsto> Val (JStr tooltipPrefixCls),
                       ''title'' \<mapsto> Val title,
                       ''visible'' \<mapsto> Val (visible tooltipVisible
                          (isTipFormatter tipFormatter (visibles_at visibles index) dragging)),
                       ''placement'' \<mapsto> Val (getTooltipPlacement env tooltipPlacement vertical),
                       ''key'' \<mapsto> Val (JNum (number_of_nat index)),
                       ''overlayClassName'' \<mapsto> Val (JStr (prefixCls @ ''-tooltip'')),
                       ''getPopupContainer'' \<mapsto>
                          Val (js_or getTooltipPopupContainer (getPopupContainer env))]
                      ++ spread (own_props h' tooltipProps))
                     (''transitionName'' \<mapsto>
                        Val (getTransitionName env rootPrefixCls ''zoom-down'' tn)))
                    [Element RcHandle
                       ((spread restProps)
                        (''value'' \<mapsto> Val val,
                         ''onMouseEnter'' \<mapsto> ToggleTooltipVisible index True,
                         ''onMouseLeave'' \<mapsto> ToggleTooltipVisible index False))
                       []])))"

subsection \<open>Events\<close>

fun fire :: "attr \<Rightarrow> Visibles \<Rightarrow> Visibles" where
  \<comment> \<open>what calling an attribute of a rendered element does to the component state:
      \<open>setVisibles\<close> is in scope of \<open>toggleTooltipVisible\<close> only, and is handed to
      no function of the caller\<close>
  "fire (ToggleTooltipVisible index b) prev = toggleTooltipVisible index b prev"
| "fire (HandleWithTooltip tooltipPrefixCls prefixCls) prev = prev"
| "fire (Val v) prev = prev"

definition attr_of :: "element \<Rightarrow> string \<Rightarrow> attr option" where
  "attr_of e k = (case e of Element c attrs kids \<Rightarrow> attrs k)"

definition component_of :: "element \<Rightarrow> component" where
  "component_of e = (case e of Element c attrs kids \<Rightarrow> c)"

definition children_of :: "element \<Rightarrow> element list" where
  "children_of e = (case e of Element c attrs kids \<Rightarrow> kids)"

subsection \<open>The render function\<close>

definition rest_of_props :: "obj \<Rightarrow> obj" where
  \<comment> \<open>\<open>const { prefixCls, tooltipPrefixCls, range, className, ...restProps } = props\<close>:
      the own properties that the rest pattern copies into a new object\<close>
  "rest_of_props P = P |` (- {''prefixCls'', ''tooltipPrefixCls'', ''range'', ''className''})"

definition reverse_on_rtl :: "env \<Rightarrow> heap \<Rightarrow> addr \<Rightarrow> heap" where
  \<comment> \<open>\<open>if (direction === 'rtl' && !restProps.vertical) { restProps.reverse = !restProps.reverse; }\<close>\<close>
  "reverse_on_rtl env h restProps =
     (if direction env = JStr ''rtl'' \<and> \<not> truthy (get (fetch h restProps) ''vertical'')
      then assign h restProps ''reverse'' (js_not (get (fetch h restProps) ''reverse''))
      else h)"

definition extract_draggableTrack :: "heap \<Rightarrow> jsval \<Rightarrow> error + jsval" where
  \<comment> \<open>\<open>let draggableTrack; if (typeof range === 'object') { draggableTrack = range.draggableTrack; }\<close>\<close>
  "extract_draggableTrack h rng =
     (if typeof rng = ''object'' then member h rng ''draggableTrack'' else Inr Undefined)"

definition render_primitive ::
  "jsval \<Rightarrow> obj \<Rightarrow> jsval \<Rightarrow> jsval \<Rightarrow> jsval \<Rightarrow> string \<Rightarrow> string \<Rightarrow> element" where
  \<comment> \<open>\<open>if (range) { return <RcRange ... />; } return <RcSlider ... />;\<close>\<close>
  "render_primitive rng restProps draggableTrack cls ref tooltipPrefixCls prefixCls =
     (if truthy rng then
        Element RcRange
          ((spread restProps)
           (''step'' \<mapsto> Val (get restProps ''step''),
            ''draggableTrack'' \<mapsto> Val draggableTrack,
            ''className'' \<mapsto> Val cls,
            ''ref'' \<mapsto> Val ref,
            ''handle'' \<mapsto> HandleWithTooltip tooltipPrefixCls prefixCls,
            ''prefixCls'' \<mapsto> Val (JStr prefixCls)))
          []
      else
        Element RcSlider
          ((spread restProps)
           (''step'' \<mapsto> Val (get restProps ''step''),
            ''className'' \<mapsto> Val cls,
            ''ref'' \<mapsto> Val ref,
            ''handle'' \<mapsto> HandleWithTooltip tooltipPrefixCls prefixCls,
            ''prefixCls'' \<mapsto> Val (JStr prefixCls)))
          [])"

definition Slider :: "env \<Rightarrow> heap \<Rightarrow> addr \<Rightarrow> jsval \<Rightarrow> error + heap \<times> element" where
  "Slider env h props ref =
     (let customizePrefixCls = get (fetch h props) ''prefixCls'';
          customizeTooltipPrefixCls = get (fetch h props) ''tooltipPrefixCls'';
          rng = get (fetch h props) ''range'';
          className = get (fetch h props) ''className'';
          (restProps, h1) = alloc h (rest_of_props (fetch h props));
          prefixCls = getPrefixCls env (JStr ''slider'') customizePrefixCls;
          tooltipPrefixCls = getPrefixCls env (JStr ''tooltip'') customizeTooltipPrefixCls;
          cls = classNames env className (prefixCls @ ''-rtl'') (direction env = JStr ''rtl'');
          h2 = reverse_on_rtl env h1 restProps
      in case extract_draggableTrack h2 rng of
           Inl e \<Rightarrow> Inl e
         | Inr draggableTrack \<Rightarrow>
             Inr (h2, render_primitive rng (fetch h2 restProps) draggableTrack cls ref
                        tooltipPrefixCls prefixCls))"

section \<open>Notions used to state the properties\<close>

fun attr_truthy :: "attr option \<Rightarrow> bool" where
  \<comment> \<open>the truthiness of \<open>props.k\<close> as the rendered component reads it: a missing
      attribute reads as \<open>undefined\<close>, a closure is a function and so truthy\<close>
  "attr_truthy None = False"
| "attr_truthy (Some (Val v)) = truthy v"
| "attr_truthy (Some (ToggleTooltipVisible index b)) = True"
| "attr_truthy (Some (HandleWithTooltip tooltipPrefixCls prefixCls)) = True"






subsection \<open>An example configuration\<close>

definition example_env :: "jsval \<Rightarrow> env" where
  "example_env dir =
     \<lparr> getPrefixCls = (\<lambda>suffixCls customizePrefixCls.
          case customizePrefixCls of
            JStr c \<Rightarrow> c
          | _ \<Rightarrow> (case suffixCls of JStr s \<Rightarrow> ''ant-'' @ s | _ \<Rightarrow> ''ant'')),
       direction = dir,
       getPopupContainer = JFun (Host 0),
       classNames = (\<lambda>className k b. if b then JStr k else className),
       combine = (\<lambda>rootPrefixCls motion. rootPrefixCls @ ''-'' @ motion),
       host = (\<lambda>n v. v) \<rparr>"

definition single_props :: obj where
  \<comment> \<open>\<open><Slider step={null} reverse={false} />\<close>\<close>
  "single_props =
     [''step'' \<mapsto> Null, ''reverse'' \<mapsto> JBool False,
      ''tipFormatter'' \<mapsto> JFun DefaultTipFormatter]"

definition range_props :: obj where
  \<comment> \<open>\<open><Slider range={{ draggableTrack: true }} tooltipVisible={false}
        tooltipProps={{ placement: 'bottom', transitionName: 'fade' }} />\<close>,
      the two inner objects at the addresses 1 and 2\<close>
  "range_props =
     [''range'' \<mapsto> JRef 1, ''tooltipVisible'' \<mapsto> JBool False,
      ''tooltipProps'' \<mapsto> JRef 2, ''tipFormatter'' \<mapsto> JFun DefaultTipFormatter]"

definition range_object :: obj where
  "range_object = [''draggableTrack'' \<mapsto> JBool True]"

definition tooltip_bag :: obj where
  "tooltip_bag = [''placement'' \<mapsto> JStr ''bottom'', ''transitionName'' \<mapsto> JStr ''fade'']"

definition example_heap :: heap where
  "example_heap = [range_props, range_object, tooltip_bag]"

definition example_info :: handle_info where
  "example_info =
     \<lparr> info_value = JNum (number_of_nat 5), info_dragging = JBool True, info_index = 2,
       info_rest = Map.empty \<rparr>"

section \<open>Properties\<close>

subsection \<open>The heap\<close>

lemma fetch_append_old: "a < length h \<Longrightarrow> fetch (h @ [ob]) a = fetch h a"
  by (simp add: fetch_def nth_append)

lemma fetch_append_new: "fetch (h @ [ob]) (length h) = ob"
  by (simp add: fetch_def)

lemma assign_new: "assign (h @ [ob]) (length h) k v = h @ [ob(k \<mapsto> v)]"
  by (simp add: assign_def fetch_def)

lemma fetch_singleton: "fetch [ob] 0 = ob"
  by (simp add: fetch_def)

lemma get_empty: "get Map.empty k = Undefined"
  by (simp add: get_def)

lemma own_props_fresh: "own_props (h @ [ob]) (JRef (length h)) = ob"
  by (simp add: own_props_def fetch_append_new)

lemma own_props_Undefined: "own_props h Undefined = Map.empty"
  by (simp add: own_props_def)

lemma member_fresh: "member (h @ [ob]) (JRef (length h)) k = Inr (get ob k)"
  by (simp add: member_def fetch_append_new)

subsection \<open>Decimal strings\<close>

lemma digit_in: "d < 10 \<Longrightarrow> digit d \<in> set ''0123456789''"
  unfolding digit_def by (rule nth_mem) simp

lemma string_of_nat_digits: "set (string_of_nat n) \<subseteq> set ''0123456789''"
proof (induction n rule: string_of_nat.induct)
  case (1 n)
  show ?case
  proof (cases "n < 10")
    case True
    then show ?thesis
      using digit_in [of n] by (subst string_of_nat.simps) simp
  next
    case False
    have "digit (n mod 10) \<in> set ''0123456789''"
      by (rule digit_in) simp
    with False 1 show ?thesis
      by (subst string_of_nat.simps) simp
  qed
qed

lemma string_of_nat_not_transitionName: "string_of_nat n \<noteq> ''transitionName''"
proof
  assume "string_of_nat n = ''transitionName''"
  then have "CHR ''t'' \<in> set (string_of_nat n)"
    by simp
  with string_of_nat_digits [of n] show False
    by auto
qed

















lemma chars_no_transitionName:
  "map_of (zip (map string_of_nat ns) vs) ''transitionName'' = None"
proof -
  have "''transitionName'' \<notin> set (map string_of_nat ns)"
  proof
    assume "''transitionName'' \<in> set (map string_of_nat ns)"
    then obtain n where "string_of_nat n = ''transitionName''"
      by auto
    with string_of_nat_not_transitionName show False
      by blast
  qed
  then have "''transitionName'' \<notin> fst ` set (zip (map string_of_nat ns) vs)"
    by (auto dest: set_zip_leftD)
  then show ?thesis
    by (simp add: map_of_eq_None_iff)
qed

lemma member_bag:
  "v \<noteq> Undefined \<Longrightarrow> member h v ''transitionName'' = Inr tn \<Longrightarrow>
   tn = get (own_props h v) ''transitionName''"
  by (cases v) (auto simp: member_def own_props_def get_def chars_no_transitionName)

subsection \<open>The render function, unfolded\<close>

lemma reverse_on_rtl_new:
  "reverse_on_rtl env (h @ [R]) (length h) =
     h @ [if direction env = JStr ''rtl'' \<and> \<not> truthy (get R ''vertical'')
          then R(''reverse'' \<mapsto> JBool (\<not> truthy (get R ''reverse''))) else R]"
  by (simp add: reverse_on_rtl_def fetch_append_new assign_new js_not_def)

lemma rest_of_props_apply:
  "rest_of_props P k =
     (if k \<in> {''prefixCls'', ''tooltipPrefixCls'', ''range'', ''className''} then None else P k)"
  by (simp add: rest_of_props_def restrict_map_def)

lemma Slider_eq:
  "Slider env h props ref =
     (let h2 = reverse_on_rtl env (h @ [rest_of_props (fetch h props)]) (length h) in
      case extract_draggableTrack h2 (get (fetch h props) ''range'') of
        Inl e \<Rightarrow> Inl e
      | Inr draggableTrack \<Rightarrow>
          Inr (h2, render_primitive (get (fetch h props) ''range'') (fetch h2 (length h))
                 draggableTrack
                 (classNames env (get (fetch h props) ''className'')
                    (getPrefixCls env (JStr ''slider'') (get (fetch h props) ''prefixCls'') @ ''-rtl'')
                    (direction env = JStr ''rtl''))
                 ref
                 (getPrefixCls env (JStr ''tooltip'') (get (fetch h props) ''tooltipPrefixCls''))
                 (getPrefixCls env (JStr ''slider'') (get (fetch h props) ''prefixCls''))))"
  by (simp add: Slider_def Let_def alloc_def)

lemma extract_draggableTrack_total:
  "rng \<noteq> Null \<Longrightarrow> \<exists>dt. extract_draggableTrack h rng = Inr dt"
  by (cases rng) (simp_all add: extract_draggableTrack_def member_def)

lemma Slider_total:
  assumes "get (fetch h props) ''range'' \<noteq> Null"
  shows "\<exists>h' e. Slider env h props ref = Inr (h', e)"
proof -
  obtain dt where "extract_draggableTrack
      (reverse_on_rtl env (h @ [rest_of_props (fetch h props)]) (length h))
      (get (fetch h props) ''range'') = Inr dt"
    using extract_draggableTrack_total [OF assms] by blast
  then show ?thesis
    by (simp add: Slider_eq Let_def)
qed

lemma Slider_heap:
  assumes "Slider env h props ref = Inr (h', e)"
  shows "h' = reverse_on_rtl env (h @ [rest_of_props (fetch h props)]) (length h)"
  using assms by (auto simp: Slider_eq Let_def split: sum.splits)

lemma Slider_element:
  assumes "Slider env h props ref = Inr (h', e)"
  shows "\<exists>dt cls tp p.
     extract_draggableTrack h' (get (fetch h props) ''range'') = Inr dt \<and>
     e = render_primitive (get (fetch h props) ''range'') (fetch h' (length h)) dt cls ref tp p"
  using assms by (auto simp: Slider_eq Let_def split: sum.splits)

lemma Slider_restProps:
  assumes "Slider env h props ref = Inr (h', e)"
  shows "fetch h' (length h) =
     (if direction env = JStr ''rtl'' \<and> \<not> truthy (get (fetch h props) ''vertical'')
      then (rest_of_props (fetch h props))
             (''reverse'' \<mapsto> JBool (\<not> truthy (get (fetch h props) ''reverse'')))
      else rest_of_props (fetch h props))"
  unfolding Slider_heap [OF assms] reverse_on_rtl_new
  by (simp add: fetch_append_new get_def rest_of_props_apply)

lemma Slider_frame:
  assumes "Slider env h props ref = Inr (h', e)"
  shows "take (length h) h' = h" and "a < length h \<Longrightarrow> fetch h' a = fetch h a"
  unfolding Slider_heap [OF assms] reverse_on_rtl_new
  by (simp_all add: fetch_append_old)

lemma render_component:
  "component_of (render_primitive rng R dt cls ref tp p) =
     (if truthy rng then RcRange else RcSlider)"
  by (simp add: render_primitive_def component_of_def)

lemma render_step:
  "attr_of (render_primitive rng R dt cls ref tp p) ''step'' = Some (Val (get R ''step''))"
  by (simp add: render_primitive_def attr_of_def)

lemma render_reverse:
  "attr_of (render_primitive rng R dt cls ref tp p) ''reverse'' = map_option Val (R ''reverse'')"
  by (simp add: render_primitive_def attr_of_def spread_def)

lemma render_draggableTrack:
  "truthy rng \<Longrightarrow>
   attr_of (render_primitive rng R dt cls ref tp p) ''draggableTrack'' = Some (Val dt)"
  by (simp add: render_primitive_def attr_of_def)

lemma render_fire:
  "attr_of (render_primitive rng R dt cls ref tp p) k = Some a \<Longrightarrow> fire a prev = prev"
  by (auto simp: render_primitive_def attr_of_def spread_def split: if_splits)

subsection \<open>The handle renderer, unfolded\<close>

lemma handleWithTooltip_eq:
  "handleWithTooltip env visibles h props tooltipPrefixCls prefixCls info =
     (let tp = get (fetch h props) ''tooltipProps'';
          h' = (if tp = Undefined then h @ [Map.empty] else h);
          tipFormatter = get (fetch h props) ''tipFormatter''
      in case (if tp = Undefined then Inr Undefined else member h tp ''transitionName'') of
           Inl e \<Rightarrow> Inl e
         | Inr tn \<Rightarrow>
             (case (if truthy tipFormatter then call env tipFormatter (info_value info)
                    else Inr (JStr [])) of
                Inl e \<Rightarrow> Inl e
              | Inr title \<Rightarrow>
                  Inr (h', Element SliderTooltip
                    (([''prefixCls'' \<mapsto> Val (JStr tooltipPrefixCls),
                       ''title'' \<mapsto> Val title,
                       ''visible'' \<mapsto> Val (visible (get (fetch h props) ''tooltipVisible'')
                          (isTipFormatter tipFormatter (visibles_at visibles (info_index info))
                             (info_dragging info))),
                       ''placement'' \<mapsto> Val (getTooltipPlacement env
                          (get (fetch h props) ''tooltipPlacement'')
                          (get (fetch h props) ''vertical'')),
                       ''key'' \<mapsto> Val (JNum (number_of_nat (info_index info))),
                       ''overlayClassName'' \<mapsto> Val (JStr (prefixCls @ ''-tooltip'')),
                       ''getPopupContainer'' \<mapsto>
                          Val (js_or (get (fetch h props) ''getTooltipPopupContainer'')
                                 (getPopupContainer env))]
                      ++ spread (own_props h tp))
                     (''transitionName'' \<mapsto>
                        Val (getTransitionName env (getPrefixCls env Undefined Undefined)
                               ''zoom-down'' tn)))
                    [Element RcHandle
                       ((spread (info_rest info))
                        (''value'' \<mapsto> Val (info_value info),
                         ''onMouseEnter'' \<mapsto> ToggleTooltipVisible (info_index info) True,
                         ''onMouseLeave'' \<mapsto> ToggleTooltipVisible (info_index info) False))
                       []])))"
proof (cases "get (fetch h props) ''tooltipProps'' = Undefined")
  case True
  then show ?thesis
    by (simp add: handleWithTooltip_def Let_def alloc_def member_fresh own_props_fresh
        own_props_Undefined get_empty cong: sum.case_cong)
next
  case False
  then show ?thesis
    by (simp add: handleWithTooltip_def Let_def)
qed

lemma call_total: "\<exists>r. call env (JFun f) arg = Inr r"
  by (cases f) (simp_all add: call_def)

lemma member_total: "v \<noteq> Undefined \<Longrightarrow> v \<noteq> Null \<Longrightarrow> \<exists>r. member h v k = Inr r"
  by (cases v) (simp_all add: member_def)

lemma handleWithTooltip_total:
  assumes "get (fetch h props) ''tooltipProps'' \<noteq> Null"
      and "\<not> truthy (get (fetch h props) ''tipFormatter'')
           \<or> (\<exists>f. get (fetch h props) ''tipFormatter'' = JFun f)"
  shows "\<exists>h' e. handleWithTooltip env visibles h props tooltipPrefixCls prefixCls info = Inr (h', e)"
proof -
  obtain tn where tn: "(if get (fetch h props) ''tooltipProps'' = Undefined then Inr Undefined
      else member h (get (fetch h props) ''tooltipProps'') ''transitionName'') = Inr tn"
    using member_total [of "get (fetch h props) ''tooltipProps''" h "''transitionName''"] assms(1)
    by (cases "get (fetch h props) ''tooltipProps'' = Undefined") auto
  have "\<exists>title. (if truthy (get (fetch h props) ''tipFormatter'')
      then call env (get (fetch h props) ''tipFormatter'') (info_value info)
      else Inr (JStr [])) = Inr title"
  proof (cases "truthy (get (fetch h props) ''tipFormatter'')")
    case True
    with assms(2) obtain f where "get (fetch h props) ''tipFormatter'' = JFun f"
      by blast
    with True call_total [of env f "info_value info"] show ?thesis
      by simp
  next
    case False
    then show ?thesis
      by simp
  qed
  then obtain title where title: "(if truthy (get (fetch h props) ''tipFormatter'')
      then call env (get (fetch h props) ''tipFormatter'') (info_value info)
      else Inr (JStr [])) = Inr title"
    by blast
  show ?thesis
    unfolding handleWithTooltip_eq Let_def tn title by simp
qed

lemma handleWithTooltip_bag:
  assumes "handleWithTooltip env visibles h props tooltipPrefixCls prefixCls info = Inr (h', e)"
      and "own_props h (get (fetch h props) ''tooltipProps'') k = Some v"
      and "k \<noteq> ''transitionName''"
  shows "attr_of e k = Some (Val v)"
  using assms
  by (auto simp: handleWithTooltip_eq Let_def attr_of_def spread_def map_add_def
      split: sum.splits if_splits)

lemma handleWithTooltip_transitionName:
  assumes "handleWithTooltip env visibles h props tooltipPrefixCls prefixCls info = Inr (h', e)"
  shows "attr_of e ''transitionName'' =
     Some (Val (getTransitionName env (getPrefixCls env Undefined Undefined) ''zoom-down''
        (get (own_props h (get (fetch h props) ''tooltipProps'')) ''transitionName'')))"
  using assms
  by (auto simp: handleWithTooltip_eq Let_def attr_of_def own_props_Undefined get_empty
      dest: member_bag split: sum.splits if_splits)

lemma handleWithTooltip_component:
  assumes "handleWithTooltip env visibles h props tooltipPrefixCls prefixCls info = Inr (h', e)"
  shows "component_of e = SliderTooltip"
  using assms
  by (auto simp: handleWithTooltip_eq Let_def component_of_def split: sum.splits if_splits)

lemma handleWithTooltip_visible:
  assumes "handleWithTooltip env visibles h props tooltipPrefixCls prefixCls info = Inr (h', e)"
      and "own_props h (get (fetch h props) ''tooltipProps'') ''visible'' = None"
  shows "attr_of e ''visible'' =
     Some (Val (visible (get (fetch h props) ''tooltipVisible'')
       (isTipFormatter (get (fetch h props) ''tipFormatter'')
          (visibles_at visibles (info_index info)) (info_dragging info))))"
  using assms
  by (auto simp: handleWithTooltip_eq Let_def attr_of_def spread_def map_add_def
      split: sum.splits if_splits)

lemma handleWithTooltip_defaults:
  assumes "handleWithTooltip env visibles h props tooltipPrefixCls prefixCls info = Inr (h', e)"
  shows "own_props h (get (fetch h props) ''tooltipProps'') ''prefixCls'' = None \<Longrightarrow>
           attr_of e ''prefixCls'' = Some (Val (JStr tooltipPrefixCls))"
    and "own_props h (get (fetch h props) ''tooltipProps'') ''placement'' = None \<Longrightarrow>
           attr_of e ''placement'' =
             Some (Val (getTooltipPlacement env (get (fetch h props) ''tooltipPlacement'')
                          (get (fetch h props) ''vertical'')))"
    and "own_props h (get (fetch h props) ''tooltipProps'') ''overlayClassName'' = None \<Longrightarrow>
           attr_of e ''overlayClassName'' = Some (Val (JStr (prefixCls @ ''-tooltip'')))"
    and "own_props h (get (fetch h props) ''tooltipProps'') ''getPopupContainer'' = None \<Longrightarrow>
           attr_of e ''getPopupContainer'' =
             Some (Val (js_or (get (fetch h props) ''getTooltipPopupContainer'')
                          (getPopupContainer env)))"
  using assms
  by (auto simp: handleWithTooltip_eq Let_def attr_of_def spread_def map_add_def
      split: sum.splits if_splits)

lemma handleWithTooltip_handle:
  assumes "handleWithTooltip env visibles h props tooltipPrefixCls prefixCls info = Inr (h', e)"
  shows "\<exists>c. children_of e = [c] \<and> component_of c = RcHandle \<and>
     attr_of c ''onMouseEnter'' = Some (ToggleTooltipVisible (info_index info) True) \<and>
     attr_of c ''onMouseLeave'' = Some (ToggleTooltipVisible (info_index info) False) \<and>
     (\<forall>k a prev. attr_of c k = Some a \<and> k \<noteq> ''onMouseEnter'' \<and> k \<noteq> ''onMouseLeave''
        \<longrightarrow> fire a prev = prev)"
  using assms
  by (auto simp: handleWithTooltip_eq Let_def attr_of_def children_of_def component_of_def
      spread_def split: sum.splits if_splits)

lemma handleWithTooltip_tooltip_fire:
  assumes "handleWithTooltip env visibles h props tooltipPrefixCls prefixCls info = Inr (h', e)"
      and "attr_of e k = Some a"
  shows "fire a prev = prev"
  using assms
  by (auto simp: handleWithTooltip_eq Let_def attr_of_def spread_def map_add_def
      split: sum.splits if_splits option.splits)

lemma handleWithTooltip_frame:
  assumes "handleWithTooltip env visibles h props tooltipPrefixCls prefixCls info = Inr (h', e)"
  shows "take (length h) h' = h"
  using assms
  by (auto simp: handleWithTooltip_eq Let_def split: sum.splits if_splits)

subsection \<open>The component state\<close>

lemma dom_fire: "dom prev \<subseteq> dom (fire a prev)"
  by (cases a) (auto simp: toggleTooltipVisible_def)

lemma dom_fold_fire: "dom prev \<subseteq> dom (fold fire evs prev)"
proof (induction evs arbitrary: prev)
  case Nil
  show ?case by simp
next
  case (Cons a evs)
  have "dom prev \<subseteq> dom (fire a prev)"
    by (rule dom_fire)
  also have "\<dots> \<subseteq> dom (fold fire evs (fire a prev))"
    by (rule Cons.IH)
  finally show ?case by simp
qed

lemma toggled_in_dom:
  "ToggleTooltipVisible i b \<in> set evs \<Longrightarrow> i \<in> dom (fold fire evs prev)"
proof (induction evs arbitrary: prev)
  case Nil
  then show ?case by simp
next
  case (Cons a evs)
  show ?case
  proof (cases "a = ToggleTooltipVisible i b")
    case True
    have "i \<in> dom (fire a prev)"
      by (simp add: True toggleTooltipVisible_def)
    with dom_fold_fire [of "fire a prev" evs] show ?thesis
      by auto
  next
    case False
    with Cons.prems have "ToggleTooltipVisible i b \<in> set evs"
      by simp
    from Cons.IH [OF this] show ?thesis
      by simp
  qed
qed

subsection \<open>Claims\<close>



text \<open>
  C2. The \<open>reverse\<close> flag that reaches the primitive is the caller's \<open>reverse\<close> XOR
  (the layout direction is \<open>rtl\<close> and \<open>vertical\<close> is unset or false). Under
  \<open>rtl\<close> without \<open>vertical\<close> it is the negation of the caller's flag, a boolean, so
  that an absent flag becomes \<open>true\<close>; with \<open>vertical\<close> true, and under any other
  direction, the caller's entry is forwarded as it is. The render returns whenever
  \<open>range\<close> is not \<open>null\<close>.
\<close>

theorem reverse_forwarded:
  assumes "get (fetch h props) ''range'' \<noteq> Null"
  shows "\<exists>h' e. Slider env h props ref = Inr (h', e) \<and>
      (attr_truthy (attr_of e ''reverse'') \<longleftrightarrow>
        (truthy (get (fetch h props) ''reverse'') \<noteq>
          (direction env = JStr ''rtl'' \<and> \<not> truthy (get (fetch h props) ''vertical'')))) \<and>
      (direction env = JStr ''rtl'' \<and> \<not> truthy (get (fetch h props) ''vertical'') \<longrightarrow>
         attr_of e ''reverse'' = Some (Val (JBool (\<not> truthy (get (fetch h props) ''reverse''))))) \<and>
      (truthy (get (fetch h props) ''vertical'') \<or> direction env \<noteq> JStr ''rtl'' \<longrightarrow>
         attr_of e ''reverse'' = map_option Val (fetch h props ''reverse''))"
proof -
  obtain h' e where S: "Slider env h props ref = Inr (h', e)"
    using Slider_total [OF assms] by blast
  obtain dt cls tp p where
    e: "e = render_primitive (get (fetch h props) ''range'') (fetch h' (length h)) dt cls ref tp p"
    using Slider_element [OF S] by blast
  have "attr_of e ''reverse'' =
     (if direction env = JStr ''rtl'' \<and> \<not> truthy (get (fetch h props) ''vertical'')
      then Some (Val (JBool (\<not> truthy (get (fetch h props) ''reverse''))))
      else map_option Val (fetch h props ''reverse''))"
    unfolding e render_reverse Slider_restProps [OF S]
    by (simp add: rest_of_props_apply)
  then show ?thesis
    using S by (cases "fetch h props ''reverse''") (auto simp: get_def)
qed

theorem reverse_forwarded_witness:
  "\<exists>h' e. Slider (example_env (JStr ''rtl'')) [single_props] 0 Null = Inr (h', e)
     \<and> attr_of e ''reverse'' = Some (Val (JBool True))"
  using reverse_forwarded [where h = "[single_props]" and props = 0
      and env = "example_env (JStr ''rtl'')" and ref = Null]
  by (auto simp: single_props_def example_env_def fetch_def get_def)

text \<open>
  C3. When the \<open>range\<close> option is absent or false, the component renders the
  single-value primitive \<open>RcSlider\<close>, and the \<open>step\<close> attribute of that element is
  the caller's \<open>step\<close> as it is, \<open>null\<close> included.
\<close>

theorem single_mode_step_verbatim:
  assumes "get (fetch h props) ''range'' = Undefined \<or> get (fetch h props) ''range'' = JBool False"
  shows "\<exists>h' e. Slider env h props ref = Inr (h', e) \<and> component_of e = RcSlider \<and>
      attr_of e ''step'' = Some (Val (get (fetch h props) ''step''))"
proof -
  have n: "get (fetch h props) ''range'' \<noteq> Null"
    using assms by auto
  obtain h' e where S: "Slider env h props ref = Inr (h', e)"
    using Slider_total [OF n] by blast
  obtain dt cls tp p where
    e: "e = render_primitive (get (fetch h props) ''range'') (fetch h' (length h)) dt cls ref tp p"
    using Slider_element [OF S] by blast
  have "get (fetch h' (length h)) ''step'' = get (fetch h props) ''step''"
    unfolding Slider_restProps [OF S] by (simp add: get_def rest_of_props_apply)
  then show ?thesis
    using S assms unfolding e by (auto simp: render_component render_step)
qed

theorem single_mode_step_verbatim_witness:
  "\<exists>h' e. Slider (example_env (JStr ''ltr'')) [single_props] 0 Null = Inr (h', e)
     \<and> component_of e = RcSlider \<and> attr_of e ''step'' = Some (Val Null)"
  using single_mode_step_verbatim [where h = "[single_props]" and props = 0
      and env = "example_env (JStr ''ltr'')" and ref = Null]
  by (auto simp: single_props_def fetch_def get_def)

text \<open>
  C4. When the \<open>range\<close> option is \<open>true\<close> or an object, the component renders the
  range primitive \<open>RcRange\<close>. For an object, the \<open>draggableTrack\<close> attribute of that
  element is the \<open>draggableTrack\<close> entry of the object (so \<open>draggableTrack: true\<close>
  reaches the primitive); for the boolean \<open>true\<close> it is \<open>undefined\<close>.
\<close>

theorem range_mode_draggableTrack:
  "(get (fetch h props) ''range'' = JBool True \<longrightarrow>
      (\<exists>h' e. Slider env h props ref = Inr (h', e) \<and> component_of e = RcRange \<and>
         attr_of e ''draggableTrack'' = Some (Val Undefined)))
   \<and> (get (fetch h props) ''range'' = JRef a \<and> a < length h \<longrightarrow>
      (\<exists>h' e. Slider env h props ref = Inr (h', e) \<and> component_of e = RcRange \<and>
         attr_of e ''draggableTrack'' = Some (Val (get (fetch h a) ''draggableTrack''))))"
proof (intro conjI impI)
  assume r: "get (fetch h props) ''range'' = JBool True"
  then have n: "get (fetch h props) ''range'' \<noteq> Null"
    by simp
  obtain h' e where S: "Slider env h props ref = Inr (h', e)"
    using Slider_total [OF n] by blast
  obtain dt cls tp p where
    dt: "extract_draggableTrack h' (get (fetch h props) ''range'') = Inr dt" and
    e: "e = render_primitive (get (fetch h props) ''range'') (fetch h' (length h)) dt cls ref tp p"
    using Slider_element [OF S] by blast
  from dt r have "dt = Undefined"
    by (simp add: extract_draggableTrack_def)
  with S r show "\<exists>h' e. Slider env h props ref = Inr (h', e) \<and> component_of e = RcRange \<and>
         attr_of e ''draggableTrack'' = Some (Val Undefined)"
    unfolding e by (auto simp: render_component render_draggableTrack)
next
  assume "get (fetch h props) ''range'' = JRef a \<and> a < length h"
  then have r: "get (fetch h props) ''range'' = JRef a" and a: "a < length h"
    by simp_all
  from r have n: "get (fetch h props) ''range'' \<noteq> Null"
    by simp
  obtain h' e where S: "Slider env h props ref = Inr (h', e)"
    using Slider_total [OF n] by blast
  obtain dt cls tp p where
    dt: "extract_draggableTrack h' (get (fetch h props) ''range'') = Inr dt" and
    e: "e = render_primitive (get (fetch h props) ''range'') (fetch h' (length h)) dt cls ref tp p"
    using Slider_element [OF S] by blast
  from dt r have "dt = get (fetch h' a) ''draggableTrack''"
    by (simp add: extract_draggableTrack_def member_def)
  also have "fetch h' a = fetch h a"
    using Slider_frame(2) [OF S a] .
  finally have "dt = get (fetch h a) ''draggableTrack''" .
  with S r show "\<exists>h' e. Slider env h props ref = Inr (h', e) \<and> component_of e = RcRange \<and>
         attr_of e ''draggableTrack'' = Some (Val (get (fetch h a) ''draggableTrack''))"
    unfolding e by (auto simp: render_component render_draggableTrack)
qed

theorem range_mode_draggableTrack_witness:
  "\<exists>h' e. Slider (example_env (JStr ''ltr'')) example_heap 0 Null = Inr (h', e)
     \<and> component_of e = RcRange \<and> attr_of e ''draggableTrack'' = Some (Val (JBool True))"
  using range_mode_draggableTrack [where h = example_heap and props = 0 and a = 1
      and env = "example_env (JStr ''ltr'')" and ref = Null]
  by (auto simp: example_heap_def range_props_def range_object_def fetch_def get_def)

text \<open>
  C5. Tooltip placement: an explicit placement (a truthy \<open>tooltipPlacement\<close>, which every
  placement name is) is returned as it is; with none, the placement is \<open>top\<close> when
  \<open>vertical\<close> is unset or false, and for a vertical slider it is \<open>left\<close> under the
  layout direction \<open>rtl\<close> and \<open>right\<close> under any other.
\<close>

theorem getTooltipPlacement_resolution:
  "(truthy tooltipPlacement \<longrightarrow>
      getTooltipPlacement env tooltipPlacement vertical = tooltipPlacement)
   \<and> (\<not> truthy tooltipPlacement \<and> \<not> truthy vertical \<longrightarrow>
      getTooltipPlacement env tooltipPlacement vertical = JStr ''top'')
   \<and> (\<not> truthy tooltipPlacement \<and> truthy vertical \<and> direction env = JStr ''rtl'' \<longrightarrow>
      getTooltipPlacement env tooltipPlacement vertical = JStr ''left'')
   \<and> (\<not> truthy tooltipPlacement \<and> truthy vertical \<and> direction env \<noteq> JStr ''rtl'' \<longrightarrow>
      getTooltipPlacement env tooltipPlacement vertical = JStr ''right'')"
  by (simp add: getTooltipPlacement_def)

theorem getTooltipPlacement_resolution_witness:
  "getTooltipPlacement (example_env (JStr ''rtl'')) (JStr ''bottom'') (JBool True) = JStr ''bottom''
   \<and> getTooltipPlacement (example_env (JStr ''rtl'')) Undefined Undefined = JStr ''top''
   \<and> getTooltipPlacement (example_env (JStr ''rtl'')) Undefined (JBool True) = JStr ''left''
   \<and> getTooltipPlacement (example_env (JStr ''ltr'')) Undefined (JBool True) = JStr ''right''"
  using getTooltipPlacement_resolution [where env = "example_env (JStr ''rtl'')"
      and tooltipPlacement = "JStr ''bottom''" and vertical = "JBool True"]
    getTooltipPlacement_resolution [where env = "example_env (JStr ''rtl'')"
      and tooltipPlacement = Undefined and vertical = Undefined]
    getTooltipPlacement_resolution [where env = "example_env (JStr ''rtl'')"
      and tooltipPlacement = Undefined and vertical = "JBool True"]
    getTooltipPlacement_resolution [where env = "example_env (JStr ''ltr'')"
      and tooltipPlacement = Undefined and vertical = "JBool True"]
  by (simp add: example_env_def)

text \<open>
  C6. For every handle index \<open>i\<close> and every visibility map, the hover-enter toggle
  gives a map whose entry \<open>i\<close> is true, the hover-leave toggle one whose entry \<open>i\<close>
  is false, and every other entry is as before. The rendered handle carries exactly these
  two toggles, for its own index, as \<open>onMouseEnter\<close> and \<open>onMouseLeave\<close> (also when
  the primitive's pass-through props have entries of these names), and they are the only
  writes to the component state: no other attribute of the handle, no attribute of the
  tooltip and no attribute of the rendered primitive changes the visibility map when it is
  called.
\<close>

theorem hover_toggles_entry:
  "toggleTooltipVisible i True prev i = Some True
   \<and> toggleTooltipVisible i False prev i = Some False
   \<and> (\<forall>j. j \<noteq> i \<longrightarrow> toggleTooltipVisible i b prev j = prev j)
   \<and> (handleWithTooltip env visibles h props tooltipPrefixCls prefixCls info = Inr (h', e) \<longrightarrow>
        (\<exists>c. children_of e = [c] \<and> component_of c = RcHandle
           \<and> attr_of c ''onMouseEnter'' = Some (ToggleTooltipVisible (info_index info) True)
           \<and> attr_of c ''onMouseLeave'' = Some (ToggleTooltipVisible (info_index info) False)
           \<and> fire (ToggleTooltipVisible (info_index info) True) prev
               = prev(info_index info \<mapsto> True)
           \<and> fire (ToggleTooltipVisible (info_index info) False) prev
               = prev(info_index info \<mapsto> False)
           \<and> (\<forall>k a. attr_of c k = Some a \<and> k \<noteq> ''onMouseEnter'' \<and> k \<noteq> ''onMouseLeave''
                 \<longrightarrow> fire a prev = prev)
           \<and> (\<forall>k a. attr_of e k = Some a \<longrightarrow> fire a prev = prev)))
   \<and> (Slider env h props ref = Inr (hb, eb) \<longrightarrow>
        (\<forall>k a. attr_of eb k = Some a \<longrightarrow> fire a prev = prev))"
proof -
  have entries: "toggleTooltipVisible i True prev i = Some True
      \<and> toggleTooltipVisible i False prev i = Some False
      \<and> (\<forall>j. j \<noteq> i \<longrightarrow> toggleTooltipVisible i b prev j = prev j)"
    by (simp add: toggleTooltipVisible_def)
  have handle: "\<exists>c. children_of e = [c] \<and> component_of c = RcHandle
           \<and> attr_of c ''onMouseEnter'' = Some (ToggleTooltipVisible (info_index info) True)
           \<and> attr_of c ''onMouseLeave'' = Some (ToggleTooltipVisible (info_index info) False)
           \<and> fire (ToggleTooltipVisible (info_index info) True) prev
               = prev(info_index info \<mapsto> True)
           \<and> fire (ToggleTooltipVisible (info_index info) False) prev
               = prev(info_index info \<mapsto> False)
           \<and> (\<forall>k a. attr_of c k = Some a \<and> k \<noteq> ''onMouseEnter'' \<and> k \<noteq> ''onMouseLeave''
                 \<longrightarrow> fire a prev = prev)
           \<and> (\<forall>k a. attr_of e k = Some a \<longrightarrow> fire a prev = prev)"
    if r: "handleWithTooltip env visibles h props tooltipPrefixCls prefixCls info = Inr (h', e)"
  proof -
    obtain c where c: "children_of e = [c]" "component_of c = RcHandle"
        "attr_of c ''onMouseEnter'' = Some (ToggleTooltipVisible (info_index info) True)"
        "attr_of c ''onMouseLeave'' = Some (ToggleTooltipVisible (info_index info) False)"
        "\<forall>k a prev. attr_of c k = Some a \<and> k \<noteq> ''onMouseEnter'' \<and> k \<noteq> ''onMouseLeave''
           \<longrightarrow> fire a prev = prev"
      using handleWithTooltip_handle [OF r] by blast
    have tooltip: "\<forall>k a. attr_of e k = Some a \<longrightarrow> fire a prev = prev"
      using handleWithTooltip_tooltip_fire [OF r] by blast
    from c tooltip show ?thesis
      by (auto simp: toggleTooltipVisible_def)
  qed
  have primitive: "\<forall>k a. attr_of eb k = Some a \<longrightarrow> fire a prev = prev"
    if S: "Slider env h props ref = Inr (hb, eb)"
  proof -
    obtain dt cls tp p where
      "eb = render_primitive (get (fetch h props) ''range'') (fetch hb (length h)) dt cls ref tp p"
      using Slider_element [OF S] by blast
    then show ?thesis
      using render_fire by blast
  qed
  from entries handle primitive show ?thesis
    by blast
qed

theorem hover_toggles_entry_witness:
  "toggleTooltipVisible 2 True [0 \<mapsto> True] 2 = Some True
   \<and> toggleTooltipVisible 2 False [0 \<mapsto> True, 2 \<mapsto> True] 2 = Some False
   \<and> toggleTooltipVisible 2 False [0 \<mapsto> True, 2 \<mapsto> True] 0 = Some True
   \<and> (\<exists>h' e c. handleWithTooltip (example_env (JStr ''ltr'')) [0 \<mapsto> True] example_heap 0
          ''ant-tooltip'' ''ant-slider'' example_info = Inr (h', e)
        \<and> children_of e = [c]
        \<and> attr_of c ''onMouseEnter'' = Some (ToggleTooltipVisible 2 True)
        \<and> attr_of c ''onMouseLeave'' = Some (ToggleTooltipVisible 2 False))"
proof -
  obtain h' e where r: "handleWithTooltip (example_env (JStr ''ltr'')) [0 \<mapsto> True] example_heap 0
       ''ant-tooltip'' ''ant-slider'' example_info = Inr (h', e)"
  proof -
    have "\<exists>h' e. handleWithTooltip (example_env (JStr ''ltr'')) [0 \<mapsto> True] example_heap 0
       ''ant-tooltip'' ''ant-slider'' example_info = Inr (h', e)"
      by (rule handleWithTooltip_total)
        (simp_all add: example_heap_def range_props_def fetch_def get_def)
    then show ?thesis
      using that by blast
  qed
  have "\<exists>c. children_of e = [c]
        \<and> attr_of c ''onMouseEnter'' = Some (ToggleTooltipVisible 2 True)
        \<and> attr_of c ''onMouseLeave'' = Some (ToggleTooltipVisible 2 False)"
    using r hover_toggles_entry [where env = "example_env (JStr ''ltr'')"
        and visibles = "[0 \<mapsto> True]" and h = example_heap and props = 0
        and tooltipPrefixCls = "''ant-tooltip''" and prefixCls = "''ant-slider''"
        and info = example_info and h' = h' and e = e and i = 2
        and prev = "[0 \<mapsto> True]" and b = True and ref = Null and hb = h' and eb = e]
    by (auto simp: example_info_def)
  moreover have "toggleTooltipVisible 2 True [0 \<mapsto> True] 2 = Some True"
    using hover_toggles_entry [where env = "example_env (JStr ''ltr'')"
        and visibles = "[0 \<mapsto> True]" and h = example_heap and props = 0
        and tooltipPrefixCls = "''ant-tooltip''" and prefixCls = "''ant-slider''"
        and info = example_info and h' = h' and e = e and i = 2
        and prev = "[0 \<mapsto> True]" and b = True and ref = Null and hb = h' and eb = e]
    by blast
  moreover have "toggleTooltipVisible 2 False [0 \<mapsto> True, 2 \<mapsto> True] 2 = Some False
      \<and> toggleTooltipVisible 2 False [0 \<mapsto> True, 2 \<mapsto> True] 0 = Some True"
    using hover_toggles_entry [where env = "example_env (JStr ''ltr'')"
        and visibles = "[0 \<mapsto> True]" and h = example_heap and props = 0
        and tooltipPrefixCls = "''ant-tooltip''" and prefixCls = "''ant-slider''"
        and info = example_info and h' = h' and e = e and i = 2
        and prev = "[0 \<mapsto> True, 2 \<mapsto> True]" and b = False and ref = Null
        and hb = h' and eb = e]
    by simp
  ultimately show ?thesis
    using r by blast
qed




text \<open>
  C8. For every \<open>tooltipProps\<close> bag of the caller, every entry of the bag other than
  \<open>transitionName\<close> is the attribute of that name of the rendered tooltip, in place of
  the computed default (\<open>prefixCls\<close>, \<open>title\<close>, \<open>visible\<close>, \<open>placement\<close>,
  \<open>overlayClassName\<close>, \<open>getPopupContainer\<close>), which is the attribute where the bag
  has no entry. The \<open>transitionName\<close> attribute is the bag's \<open>transitionName\<close> when
  the bag supplies one (a value other than \<open>undefined\<close>), and otherwise the ambient root
  prefix combined with \<open>zoom-down\<close>.
\<close>

theorem tooltipProps_override:
  assumes "handleWithTooltip env visibles h props tooltipPrefixCls prefixCls info = Inr (h', e)"
  shows "component_of e = SliderTooltip
   \<and> (\<forall>k v. own_props h (get (fetch h props) ''tooltipProps'') k = Some v
          \<and> k \<noteq> ''transitionName'' \<longrightarrow> attr_of e k = Some (Val v))
   \<and> attr_of e ''transitionName'' =
        Some (Val (if get (own_props h (get (fetch h props) ''tooltipProps'')) ''transitionName''
                      \<noteq> Undefined
                   then get (own_props h (get (fetch h props) ''tooltipProps'')) ''transitionName''
                   else JStr (combine env (getPrefixCls env Undefined Undefined) ''zoom-down'')))
   \<and> (own_props h (get (fetch h props) ''tooltipProps'') ''prefixCls'' = None \<longrightarrow>
        attr_of e ''prefixCls'' = Some (Val (JStr tooltipPrefixCls)))
   \<and> (own_props h (get (fetch h props) ''tooltipProps'') ''visible'' = None \<longrightarrow>
        attr_of e ''visible'' =
          Some (Val (visible (get (fetch h props) ''tooltipVisible'')
            (isTipFormatter (get (fetch h props) ''tipFormatter'')
               (visibles_at visibles (info_index info)) (info_dragging info)))))
   \<and> (own_props h (get (fetch h props) ''tooltipProps'') ''placement'' = None \<longrightarrow>
        attr_of e ''placement'' =
          Some (Val (getTooltipPlacement env (get (fetch h props) ''tooltipPlacement'')
                       (get (fetch h props) ''vertical''))))
   \<and> (own_props h (get (fetch h props) ''tooltipProps'') ''overlayClassName'' = None \<longrightarrow>
        attr_of e ''overlayClassName'' = Some (Val (JStr (prefixCls @ ''-tooltip''))))
   \<and> (own_props h (get (fetch h props) ''tooltipProps'') ''getPopupContainer'' = None \<longrightarrow>
        attr_of e ''getPopupContainer'' =
          Some (Val (js_or (get (fetch h props) ''getTooltipPopupContainer'')
                       (getPopupContainer env))))"
proof -
  note r = assms
  have bag: "\<forall>k v. own_props h (get (fetch h props) ''tooltipProps'') k = Some v
          \<and> k \<noteq> ''transitionName'' \<longrightarrow> attr_of e k = Some (Val v)"
    using handleWithTooltip_bag [OF r] by blast
  have name: "attr_of e ''transitionName'' =
        Some (Val (if get (own_props h (get (fetch h props) ''tooltipProps'')) ''transitionName''
                      \<noteq> Undefined
                   then get (own_props h (get (fetch h props) ''tooltipProps'')) ''transitionName''
                   else JStr (combine env (getPrefixCls env Undefined Undefined) ''zoom-down'')))"
    unfolding handleWithTooltip_transitionName [OF r] getTransitionName_def by simp
  from handleWithTooltip_component [OF r] bag name
    handleWithTooltip_defaults [OF r] handleWithTooltip_visible [OF r]
  show ?thesis
    by (intro conjI impI) simp_all
qed

theorem tooltipProps_override_witness:
  "\<exists>h' e. handleWithTooltip (example_env (JStr ''ltr'')) [2 \<mapsto> True] example_heap 0
       ''ant-tooltip'' ''ant-slider'' example_info = Inr (h', e)
     \<and> attr_of e ''placement'' = Some (Val (JStr ''bottom''))
     \<and> attr_of e ''transitionName'' = Some (Val (JStr ''fade''))
     \<and> attr_of e ''prefixCls'' = Some (Val (JStr ''ant-tooltip''))
     \<and> attr_of e ''overlayClassName'' = Some (Val (JStr ''ant-slider-tooltip''))"
proof -
  obtain h' e where r: "handleWithTooltip (example_env (JStr ''ltr'')) [2 \<mapsto> True] example_heap 0
       ''ant-tooltip'' ''ant-slider'' example_info = Inr (h', e)"
  proof -
    have "\<exists>h' e. handleWithTooltip (example_env (JStr ''ltr'')) [2 \<mapsto> True] example_heap 0
       ''ant-tooltip'' ''ant-slider'' example_info = Inr (h', e)"
      by (rule handleWithTooltip_total)
        (simp_all add: example_heap_def range_props_def fetch_def get_def)
    then show ?thesis
      using that by blast
  qed
  have "attr_of e ''placement'' = Some (Val (JStr ''bottom''))
     \<and> attr_of e ''transitionName'' = Some (Val (JStr ''fade''))
     \<and> attr_of e ''prefixCls'' = Some (Val (JStr ''ant-tooltip''))
     \<and> attr_of e ''overlayClassName'' = Some (Val (JStr ''ant-slider-tooltip''))"
    using tooltipProps_override [OF r]
    by (simp add: example_heap_def range_props_def tooltip_bag_def fetch_def get_def
        own_props_def)
  with r show ?thesis
    by blast
qed

text \<open>
  C9. A render never mutates the props object of the caller: every object that exists
  before the render, the props object among them, has all its fields unchanged after it.
  The right-to-left inversion of \<open>reverse\<close> is written to the copy that the rest
  pattern makes, which is the one new object of the heap. Rendering a handle leaves every
  existing object unchanged as well.
\<close>

theorem props_not_mutated:
  assumes "Slider env h props ref = Inr (h', e)"
  shows "take (length h) h' = h
   \<and> (\<forall>a. a < length h \<longrightarrow> fetch h' a = fetch h a)
   \<and> (props < length h \<longrightarrow> fetch h' props = fetch h props)
   \<and> length h' = Suc (length h)
   \<and> fetch h' (length h) ''reverse'' =
       (if direction env = JStr ''rtl'' \<and> \<not> truthy (get (fetch h props) ''vertical'')
        then Some (JBool (\<not> truthy (get (fetch h props) ''reverse'')))
        else fetch h props ''reverse'')
   \<and> (handleWithTooltip env visibles h' props tooltipPrefixCls prefixCls info = Inr (hb, eb)
        \<longrightarrow> take (length h) hb = h)"
proof -
  have len: "length h' = Suc (length h)"
    unfolding Slider_heap [OF assms] reverse_on_rtl_new by simp
  have copy: "fetch h' (length h) ''reverse'' =
       (if direction env = JStr ''rtl'' \<and> \<not> truthy (get (fetch h props) ''vertical'')
        then Some (JBool (\<not> truthy (get (fetch h props) ''reverse'')))
        else fetch h props ''reverse'')"
    unfolding Slider_restProps [OF assms] by (simp add: rest_of_props_apply)
  have handle: "take (length h) hb = h"
    if r: "handleWithTooltip env visibles h' props tooltipPrefixCls prefixCls info = Inr (hb, eb)"
  proof -
    have "take (length h) hb = take (length h) (take (length h') hb)"
      by (simp add: len min_def)
    also have "\<dots> = take (length h) h'"
      by (simp only: handleWithTooltip_frame [OF r])
    finally show ?thesis
      by (simp only: Slider_frame(1) [OF assms])
  qed
  from Slider_frame [OF assms] len copy handle show ?thesis
    by simp
qed

theorem props_not_mutated_witness:
  "\<exists>h' e. Slider (example_env (JStr ''rtl'')) [single_props] 0 Null = Inr (h', e)
     \<and> fetch h' 0 = single_props
     \<and> fetch h' 0 ''reverse'' = Some (JBool False)
     \<and> fetch h' 1 ''reverse'' = Some (JBool True)"
proof -
  obtain h' e where S: "Slider (example_env (JStr ''rtl'')) [single_props] 0 Null = Inr (h', e)"
  proof -
    have "\<exists>h' e. Slider (example_env (JStr ''rtl'')) [single_props] 0 Null = Inr (h', e)"
      by (rule Slider_total) (simp add: single_props_def fetch_def get_def)
    then show ?thesis
      using that by blast
  qed
  have "fetch h' 0 = single_props
     \<and> fetch h' 0 ''reverse'' = Some (JBool False)
     \<and> fetch h' 1 ''reverse'' = Some (JBool True)"
    using props_not_mutated [OF S, where visibles = Map.empty
        and tooltipPrefixCls = "''ant-tooltip''" and prefixCls = "''ant-slider''"
        and info = example_info and hb = h' and eb = e]
    by (simp add: fetch_singleton example_env_def get_def) (simp add: single_props_def)
  with S show ?thesis
    by blast
qed

text \<open>
  C10. The set of indices present in the visibility map never shrinks: whatever attributes
  of rendered elements are called one after the other, hover-enter and hover-leave
  handlers among them, every key of the map before is a key of the map after, and every
  index that was toggled along the way is a key of the map after. A hover-leave writes
  \<open>false\<close> to the entry of its handle and does not delete it.
\<close>

theorem visibles_keys_persist:
  "dom prev \<subseteq> dom (fold fire evs prev)
   \<and> (\<forall>i b. ToggleTooltipVisible i b \<in> set evs \<longrightarrow> i \<in> dom (fold fire evs prev))
   \<and> toggleTooltipVisible i False prev i = Some False
   \<and> dom (toggleTooltipVisible i b prev) = insert i (dom prev)"
proof -
  have leave: "toggleTooltipVisible i False prev i = Some False"
    by (simp add: toggleTooltipVisible_def)
  have keys: "dom (toggleTooltipVisible i b prev) = insert i (dom prev)"
    by (simp add: toggleTooltipVisible_def)
  from dom_fold_fire [of prev evs] toggled_in_dom [of _ _ evs prev] leave keys
  show ?thesis
    by blast
qed

theorem visibles_keys_persist_witness:
  "{0} \<subseteq> dom (fold fire
       [ToggleTooltipVisible 1 True, ToggleTooltipVisible 1 False, ToggleTooltipVisible 0 False]
       [0 \<mapsto> True])
   \<and> 1 \<in> dom (fold fire
       [ToggleTooltipVisible 1 True, ToggleTooltipVisible 1 False, ToggleTooltipVisible 0 False]
       [0 \<mapsto> True])
   \<and> toggleTooltipVisible 1 False [0 \<mapsto> True, 1 \<mapsto> True] 1 = Some False"
  using visibles_keys_persist [where prev = "[0 \<mapsto> True]" and evs =
      "[ToggleTooltipVisible 1 True, ToggleTooltipVisible 1 False, ToggleTooltipVisible 0 False]"]
    visibles_keys_persist [where prev = "[0 \<mapsto> True, 1 \<mapsto> True]" and i = 1]
  by simp

end
